theory Spec2Isabelle
  imports Complex_Main "HOL-Library.Sublist"
begin

section \<open>Python values, exceptions and the object store\<close>

text \<open>
  The members of \<^verbatim>\<open>class MessageType(Enum)\<close> of \<^verbatim>\<open>message.py\<close>, in declaration order.
  \<^verbatim>\<open>MessageType\<close> is a plain \<^verbatim>\<open>Enum\<close>: a member never compares equal to a string.
\<close>

datatype MessageType =
    AUDIO_CAPTURED | TRANSCRIPTION_COMPLETE
  | SEMANTIC_ANALYSIS_COMPLETE | INTENT_CLASSIFIED | THEME_DETECTED
  | DECISIONS_EXTRACTED | ACTION_ITEMS_EXTRACTED | RISKS_EXTRACTED | SUMMARY_GENERATED
  | TASK_CREATED | TASK_UPDATED | REMINDER_SENT | ESCALATION_TRIGGERED
  | ERROR | LOG | SYSTEM_COMMAND | CONFIG_UPDATED
  | MEMORY_STORED | MEMORY_RETRIEVED | CONTEXT_UPDATED

text \<open>\<^verbatim>\<open>member.name\<close>.\<close>

fun MessageType_name :: "MessageType \<Rightarrow> string" where
  "MessageType_name AUDIO_CAPTURED = ''AUDIO_CAPTURED''"
| "MessageType_name TRANSCRIPTION_COMPLETE = ''TRANSCRIPTION_COMPLETE''"
| "MessageType_name SEMANTIC_ANALYSIS_COMPLETE = ''SEMANTIC_ANALYSIS_COMPLETE''"
| "MessageType_name INTENT_CLASSIFIED = ''INTENT_CLASSIFIED''"
| "MessageType_name THEME_DETECTED = ''THEME_DETECTED''"
| "MessageType_name DECISIONS_EXTRACTED = ''DECISIONS_EXTRACTED''"
| "MessageType_name ACTION_ITEMS_EXTRACTED = ''ACTION_ITEMS_EXTRACTED''"
| "MessageType_name RISKS_EXTRACTED = ''RISKS_EXTRACTED''"
| "MessageType_name SUMMARY_GENERATED = ''SUMMARY_GENERATED''"
| "MessageType_name TASK_CREATED = ''TASK_CREATED''"
| "MessageType_name TASK_UPDATED = ''TASK_UPDATED''"
| "MessageType_name REMINDER_SENT = ''REMINDER_SENT''"
| "MessageType_name ESCALATION_TRIGGERED = ''ESCALATION_TRIGGERED''"
| "MessageType_name ERROR = ''ERROR''"
| "MessageType_name LOG = ''LOG''"
| "MessageType_name SYSTEM_COMMAND = ''SYSTEM_COMMAND''"
| "MessageType_name CONFIG_UPDATED = ''CONFIG_UPDATED''"
| "MessageType_name MEMORY_STORED = ''MEMORY_STORED''"
| "MessageType_name MEMORY_RETRIEVED = ''MEMORY_RETRIEVED''"
| "MessageType_name CONTEXT_UPDATED = ''CONTEXT_UPDATED''"

definition MessageType_members :: "MessageType list" where
  "MessageType_members =
     [AUDIO_CAPTURED, TRANSCRIPTION_COMPLETE,
      SEMANTIC_ANALYSIS_COMPLETE, INTENT_CLASSIFIED, THEME_DETECTED,
      DECISIONS_EXTRACTED, ACTION_ITEMS_EXTRACTED, RISKS_EXTRACTED, SUMMARY_GENERATED,
      TASK_CREATED, TASK_UPDATED, REMINDER_SENT, ESCALATION_TRIGGERED,
      ERROR, LOG, SYSTEM_COMMAND, CONFIG_UPDATED,
      MEMORY_STORED, MEMORY_RETRIEVED, CONTEXT_UPDATED]"

text \<open>
  \<^verbatim>\<open>MessageType[name]\<close> on a string: the member of that name, \<open>None\<close> where Python
  raises \<^verbatim>\<open>KeyError\<close>.
\<close>

definition MessageType_getitem :: "string \<Rightarrow> MessageType option" where
  "MessageType_getitem s =
     map_of (map (\<lambda>t. (MessageType_name t, t)) MessageType_members) s"

text \<open>
  The Python values that the modelled code stores and passes on. A dictionary is a mutable
  object: \<open>PyDict r\<close> is a reference to the dictionary at address \<open>r\<close> of the store, so
  that two values may share one dictionary. A \<^verbatim>\<open>float\<close> is read as a real number.
\<close>

type_synonym ref = nat

datatype pyval =
    PyNone
  | PyStr string
  | PyInt int
  | PyFloat real
  | PyEnum MessageType
  | PyDict ref

text \<open>The built-in exceptions that the modelled code raises.\<close>

datatype pyerror = KeyError | ValueError | TypeError | IndexError | RuntimeError

text \<open>
  A dictionary with string keys (\<^verbatim>\<open>Dict[str, Any]\<close>) is a map; the store is the list of the
  dictionaries allocated so far, a reference being an index into it. Every reference held
  by a running program is below the length of the store.
\<close>

type_synonym pydict = "string \<rightharpoonup> pyval"

type_synonym store = "pydict list"

definition alloc :: "pydict \<Rightarrow> store \<Rightarrow> ref \<times> store" where
  "alloc d h = (length h, h @ [d])"

text \<open>\<^verbatim>\<open>d.get(k, default)\<close>.\<close>

definition dict_get :: "pydict \<Rightarrow> string \<Rightarrow> pyval \<Rightarrow> pyval" where
  "dict_get d k dflt = (case d k of None \<Rightarrow> dflt | Some v \<Rightarrow> v)"

text \<open>
  \<^verbatim>\<open>dict(x)\<close>, the copy that \<^verbatim>\<open>with_content\<close> and \<^verbatim>\<open>create_reply\<close> take: a new
  dictionary with the entries of a dictionary \<open>x\<close>. An empty string is an empty iterable of
  pairs; a non-empty string fails on its first element (\<^verbatim>\<open>ValueError\<close>); \<^verbatim>\<open>None\<close>, a
  number and an enum member are not iterable (\<^verbatim>\<open>TypeError\<close>).
\<close>

fun dict_copy :: "store \<Rightarrow> pyval \<Rightarrow> pyerror + pydict" where
  "dict_copy h (PyDict r) = Inr (h ! r)"
| "dict_copy h (PyStr s) = (if s = [] then Inr Map.empty else Inl ValueError)"
| "dict_copy h PyNone = Inl TypeError"
| "dict_copy h (PyInt i) = Inl TypeError"
| "dict_copy h (PyFloat x) = Inl TypeError"
| "dict_copy h (PyEnum t) = Inl TypeError"

section \<open>message.py: Message\<close>

text \<open>
  The dataclass \<^verbatim>\<open>Message\<close>. Python checks none of the annotated field types, so a field
  holds any value; only \<^verbatim>\<open>type\<close> is a \<^verbatim>\<open>MessageType\<close> member once \<^verbatim>\<open>__post_init__\<close>
  has returned, and \<^verbatim>\<open>type_name\<close> is the attribute that \<^verbatim>\<open>__post_init__\<close> adds.
\<close>

record Message =
  type :: MessageType
  type_name :: string
  content :: pyval
  sender :: pyval
  recipient :: pyval
  timestamp :: pyval
  message_id :: pyval
  parent_id :: pyval
  context_id :: pyval
  thread_id :: pyval
  priority :: pyval
  ttl :: pyval
  metadata :: pyval

text \<open>
  \<^verbatim>\<open>__post_init__\<close> on the \<^verbatim>\<open>type\<close> argument: a member is kept; anything else is looked up
  with \<^verbatim>\<open>MessageType[self.type]\<close>, whose \<^verbatim>\<open>KeyError\<close> (no member of that name; a key that
  is not a string names no member) and \<^verbatim>\<open>TypeError\<close> (an unhashable key, a dictionary)
  both become \<^verbatim>\<open>ValueError\<close>.
\<close>

fun post_init :: "pyval \<Rightarrow> pyerror + MessageType" where
  "post_init (PyEnum t) = Inr t"
| "post_init (PyStr s) =
     (case MessageType_getitem s of None \<Rightarrow> Inl ValueError | Some t \<Rightarrow> Inr t)"
| "post_init PyNone = Inl ValueError"
| "post_init (PyInt i) = Inl ValueError"
| "post_init (PyFloat x) = Inl ValueError"
| "post_init (PyDict r) = Inl ValueError"

text \<open>
  The constructor \<^verbatim>\<open>Message(type=..., content=..., ...)\<close>: the generated \<^verbatim>\<open>__init__\<close>
  followed by \<^verbatim>\<open>__post_init__\<close>. The arguments are in the order of the field
  declarations; a caller that leaves out \<^verbatim>\<open>timestamp\<close> or \<^verbatim>\<open>message_id\<close> passes what
  \<^verbatim>\<open>time.time()\<close> and \<^verbatim>\<open>str(uuid.uuid4())\<close> return at that moment.
\<close>

definition Message_init ::
  "pyval \<Rightarrow> pyval \<Rightarrow> pyval \<Rightarrow> pyval \<Rightarrow> pyval \<Rightarrow> pyval \<Rightarrow> pyval \<Rightarrow> pyval \<Rightarrow> pyval \<Rightarrow> pyval \<Rightarrow>
   pyval \<Rightarrow> pyval \<Rightarrow> pyerror + Message" where
  "Message_init ty cont sndr rcpt ts mid par ctx thr prio life meta =
     (case post_init ty of
        Inl e \<Rightarrow> Inl e
      | Inr t \<Rightarrow> Inr \<lparr>type = t, type_name = MessageType_name t, content = cont,
                     sender = sndr, recipient = rcpt, timestamp = ts, message_id = mid,
                     parent_id = par, context_id = ctx, thread_id = thr,
                     priority = prio, ttl = life, metadata = meta\<rparr>)"

text \<open>
  \<^verbatim>\<open>with_content(self, **kwargs)\<close>, called as \<^verbatim>\<open>m.with_content(**kwargs)\<close>. The keywords
  are bound before the body runs: a keyword \<^verbatim>\<open>self\<close> meets the parameter that already
  holds the message, and the call raises \<^verbatim>\<open>TypeError\<close> (multiple values for the argument
  \<^verbatim>\<open>self\<close>); every other keyword goes into the dictionary \<^verbatim>\<open>kwargs\<close> of the body.
  \<open>now\<close> and \<open>uid\<close> are what \<^verbatim>\<open>time.time()\<close> and \<^verbatim>\<open>str(uuid.uuid4())\<close> return for the new
  message. \<^verbatim>\<open>dict(self.content)\<close> allocates the copy, \<^verbatim>\<open>update\<close> writes into the copy, and
  \<^verbatim>\<open>dict(self.metadata)\<close> allocates a second dictionary.
\<close>

definition with_content ::
  "real \<Rightarrow> string \<Rightarrow> Message \<Rightarrow> pydict \<Rightarrow> store \<Rightarrow> (pyerror + Message) \<times> store" where
  "with_content now uid self kwargs h =
     (if kwargs ''self'' \<noteq> None then (Inl TypeError, h)
      else
        (case dict_copy h (content self) of
           Inl e \<Rightarrow> (Inl e, h)
         | Inr c \<Rightarrow>
             (let (new_content, h1) = alloc c h;
                  h2 = h1[new_content := (h1 ! new_content) ++ kwargs]
              in case dict_copy h2 (metadata self) of
                   Inl e \<Rightarrow> (Inl e, h2)
                 | Inr md \<Rightarrow>
                     (let (new_metadata, h3) = alloc md h2
                      in (Message_init (PyEnum (type self)) (PyDict new_content)
                            (sender self) (recipient self) (PyFloat now) (PyStr uid)
                            (message_id self) (context_id self) (thread_id self)
                            (priority self) (ttl self) (PyDict new_metadata), h3)))))"

text \<open>
  \<^verbatim>\<open>create_reply(self, message_type, content)\<close>: no \<^verbatim>\<open>ttl\<close> argument is passed, so the
  field takes its default \<^verbatim>\<open>None\<close>.
\<close>

definition create_reply ::
  "real \<Rightarrow> string \<Rightarrow> Message \<Rightarrow> pyval \<Rightarrow> pyval \<Rightarrow> store \<Rightarrow> (pyerror + Message) \<times> store" where
  "create_reply now uid self message_type cont h =
     (case dict_copy h (metadata self) of
        Inl e \<Rightarrow> (Inl e, h)
      | Inr md \<Rightarrow>
          (let (new_metadata, h1) = alloc md h
           in (Message_init message_type cont
                 (recipient self) (sender self) (PyFloat now) (PyStr uid)
                 (message_id self) (context_id self) (thread_id self)
                 (priority self) PyNone (PyDict new_metadata), h1)))"

text \<open>\<^verbatim>\<open>to_dict\<close>: a new dictionary of the twelve entries; it returns the reference.\<close>

definition to_dict :: "Message \<Rightarrow> store \<Rightarrow> ref \<times> store" where
  "to_dict self h =
     alloc [''message_id'' \<mapsto> message_id self,
            ''type'' \<mapsto> PyStr (type_name self),
            ''content'' \<mapsto> content self,
            ''sender'' \<mapsto> sender self,
            ''recipient'' \<mapsto> recipient self,
            ''timestamp'' \<mapsto> timestamp self,
            ''parent_id'' \<mapsto> parent_id self,
            ''context_id'' \<mapsto> context_id self,
            ''thread_id'' \<mapsto> thread_id self,
            ''priority'' \<mapsto> priority self,
            ''ttl'' \<mapsto> ttl self,
            ''metadata'' \<mapsto> metadata self] h"

text \<open>
  \<^verbatim>\<open>from_dict(cls, data)\<close>, \<open>data\<close> being the reference to the caller's dictionary.
  \<^verbatim>\<open>data.pop("type")\<close> raises \<^verbatim>\<open>KeyError\<close> when the key is absent and otherwise removes the
  entry from the caller's dictionary. A string is converted with \<^verbatim>\<open>MessageType[msg_type]\<close>
  (\<^verbatim>\<open>KeyError\<close> becomes \<^verbatim>\<open>ValueError\<close>); any other value goes to the constructor as it is.
  The two \<^verbatim>\<open>{}\<close> defaults are evaluated, hence allocated, whether or not they are used, and
  so are \<^verbatim>\<open>time.time()\<close> (\<open>now\<close>) and \<^verbatim>\<open>str(uuid.uuid4())\<close> (\<open>uid\<close>).
\<close>

definition from_dict ::
  "real \<Rightarrow> string \<Rightarrow> ref \<Rightarrow> store \<Rightarrow> (pyerror + Message) \<times> store" where
  "from_dict now uid data h =
     (case (h ! data) ''type'' of
        None \<Rightarrow> (Inl KeyError, h)
      | Some popped \<Rightarrow>
          (let h1 = h[data := (h ! data)(''type'' := None)];
               converted =
                 (case popped of
                    PyStr s \<Rightarrow>
                      (case MessageType_getitem s of
                         None \<Rightarrow> Inl ValueError
                       | Some t \<Rightarrow> Inr (PyEnum t))
                  | v \<Rightarrow> Inr v)
           in case converted of
                Inl e \<Rightarrow> (Inl e, h1)
              | Inr msg_type \<Rightarrow>
                  (let d = h1 ! data;
                       (content_default, h2) = alloc Map.empty h1;
                       (metadata_default, h3) = alloc Map.empty h2
                   in (Message_init msg_type
                         (dict_get d ''content'' (PyDict content_default))
                         (dict_get d ''sender'' PyNone)
                         (dict_get d ''recipient'' PyNone)
                         (dict_get d ''timestamp'' (PyFloat now))
                         (dict_get d ''message_id'' (PyStr uid))
                         (dict_get d ''parent_id'' PyNone)
                         (dict_get d ''context_id'' PyNone)
                         (dict_get d ''thread_id'' PyNone)
                         (dict_get d ''priority'' (PyInt 0))
                         (dict_get d ''ttl'' PyNone)
                         (dict_get d ''metadata'' (PyDict metadata_default)), h3))))"

section \<open>event_bus.py: EventBus\<close>

text \<open>
  A key of the \<^verbatim>\<open>subscribers\<close> dictionary. \<^verbatim>\<open>subscribe\<close> declares \<^verbatim>\<open>event_type: str\<close>,
  and the agents subscribe with \<^verbatim>\<open>MessageType.X.name\<close>; \<^verbatim>\<open>publish\<close> looks up
  \<^verbatim>\<open>message.type\<close>, a \<^verbatim>\<open>MessageType\<close> member. A string and a member are different keys:
  \<^verbatim>\<open>MessageType.X == "X"\<close> is false.
\<close>

datatype event_key = KStr string | KEnum MessageType

text \<open>
  What a subscriber callback does when it is called with a message: it returns, or it
  raises. \<open>Exc s\<close> is an instance of \<^verbatim>\<open>Exception\<close> whose \<^verbatim>\<open>str(e)\<close> is \<open>s\<close>; \<open>BaseExc s\<close> is
  a \<^verbatim>\<open>BaseException\<close> outside \<^verbatim>\<open>Exception\<close> (\<^verbatim>\<open>SystemExit\<close>, \<^verbatim>\<open>KeyboardInterrupt\<close>).
\<close>

datatype raised = Exc string | BaseExc string

datatype outcome = Returned | Raised raised

type_synonym callback = "Message \<Rightarrow> outcome"

text \<open>A record written by \<^verbatim>\<open>self.logger\<close>: the level and the formatted message.\<close>

record log_record =
  levelname :: string
  msg :: string

text \<open>
  The state of an \<^verbatim>\<open>EventBus\<close>. \<open>loop_ready\<close> is the queue of the event loop: the
  coroutines \<^verbatim>\<open>_async_call_subscriber(callback, message)\<close> handed to
  \<^verbatim>\<open>asyncio.run_coroutine_threadsafe\<close>, in submission order. \<open>loop_closed\<close> and
  \<open>executor_shutdown\<close> are the states of \<^verbatim>\<open>self.loop\<close> and \<^verbatim>\<open>self.executor\<close>.
\<close>

record EventBus =
  subscribers :: "event_key \<rightharpoonup> (string \<times> callback) list"
  max_workers :: int
  executor_shutdown :: bool
  loop_closed :: bool
  loop_ready :: "(callback \<times> Message) list"
  message_history :: "Message list"
  max_history_size :: int

text \<open>
  \<^verbatim>\<open>__init__(config)\<close>, for a configuration that holds integers (\<^verbatim>\<open>None\<close> is the empty
  configuration) and whose \<^verbatim>\<open>max_workers\<close>, when given, is positive: \<^verbatim>\<open>ThreadPoolExecutor\<close>
  raises \<^verbatim>\<open>ValueError\<close> for any other number, and no bus is built.
\<close>

definition EventBus_init :: "(string \<rightharpoonup> int) \<Rightarrow> EventBus" where
  "EventBus_init config =
     \<lparr>subscribers = Map.empty,
      max_workers = (case config ''max_workers'' of None \<Rightarrow> 10 | Some n \<Rightarrow> n),
      executor_shutdown = False,
      loop_closed = False,
      loop_ready = [],
      message_history = [],
      max_history_size = (case config ''max_history_size'' of None \<Rightarrow> 1000 | Some n \<Rightarrow> n)\<rparr>"

text \<open>
  \<^verbatim>\<open>subscribe(event_type, callback)\<close>; \<open>uid\<close> is what \<^verbatim>\<open>str(uuid.uuid4())\<close> returns. The
  \<^verbatim>\<open>defaultdict\<close> creates the empty list of a key it does not hold.
\<close>

definition subscribe :: "string \<Rightarrow> EventBus \<Rightarrow> event_key \<Rightarrow> callback \<Rightarrow> string \<times> EventBus" where
  "subscribe uid self event_type cb =
     (uid, self\<lparr>subscribers := (subscribers self)(event_type \<mapsto>
              (case subscribers self event_type of None \<Rightarrow> [] | Some subs \<Rightarrow> subs)
                @ [(uid, cb)])\<rparr>)"

definition unsubscribe :: "EventBus \<Rightarrow> event_key \<Rightarrow> string \<Rightarrow> bool \<times> EventBus" where
  "unsubscribe self event_type subscription_id =
     (case subscribers self event_type of
        None \<Rightarrow> (False, self)
      | Some subs \<Rightarrow>
          (let kept = filter (\<lambda>(sub_id, cb). sub_id \<noteq> subscription_id) subs;
               success = (length kept < length subs)
           in (success,
               self\<lparr>subscribers :=
                 (if kept = [] then (subscribers self)(event_type := None)
                  else (subscribers self)(event_type \<mapsto> kept))\<rparr>)))"

text \<open>
  The loop of \<^verbatim>\<open>publish\<close> over \<^verbatim>\<open>self.subscribers[event_type]\<close>:
  \<^verbatim>\<open>run_coroutine_threadsafe\<close> puts the coroutine on the queue of the loop, and raises
  \<^verbatim>\<open>RuntimeError\<close> (\<^verbatim>\<open>Event loop is closed\<close>) once the loop is closed. The result is the
  exception that leaves \<^verbatim>\<open>publish\<close>, if any, and the state at that moment.
\<close>

fun submit_all ::
  "EventBus \<Rightarrow> (string \<times> callback) list \<Rightarrow> Message \<Rightarrow> pyerror option \<times> EventBus" where
  "submit_all self [] message = (None, self)"
| "submit_all self ((sub_id, cb) # rest) message =
     (if loop_closed self then (Some RuntimeError, self)
      else submit_all (self\<lparr>loop_ready := loop_ready self @ [(cb, message)]\<rparr>) rest message)"

text \<open>
  The argument of \<^verbatim>\<open>publish\<close>: a \<^verbatim>\<open>Message\<close>, or an object that fails the
  \<^verbatim>\<open>isinstance(message, Message)\<close> test.
\<close>

datatype publish_arg = A_Message Message | A_Other pyval

text \<open>
  \<^verbatim>\<open>publish(message)\<close>. \<^verbatim>\<open>self.message_history.pop(0)\<close> raises \<^verbatim>\<open>IndexError\<close> on an empty
  list, which happens when \<^verbatim>\<open>max_history_size\<close> is not positive. The history is written
  before the subscribers are looked up. (The calls of the logger are left out.)
\<close>

definition publish :: "EventBus \<Rightarrow> publish_arg \<Rightarrow> pyerror option \<times> EventBus" where
  "publish self arg =
     (case arg of
        A_Other v \<Rightarrow> (None, self)
      | A_Message message \<Rightarrow>
          (if int (length (message_history self)) \<ge> max_history_size self
              \<and> message_history self = []
           then (Some IndexError, self)
           else
             (let popped = (if int (length (message_history self)) \<ge> max_history_size self
                            then tl (message_history self) else message_history self);
                  self1 = self\<lparr>message_history := popped @ [message]\<rparr>;
                  event_type = KEnum (type message)
              in case subscribers self1 event_type of
                   None \<Rightarrow> (None, self1)
                 | Some subs \<Rightarrow> submit_all self1 subs message)))"


text \<open>
  \<^verbatim>\<open>xs[start:]\<close>: a negative \<open>start\<close> counts from the end, and the bounds are clamped to
  the list.
\<close>

definition slice_from :: "'a list \<Rightarrow> int \<Rightarrow> 'a list" where
  "slice_from xs start =
     (let n = int (length xs);
          lo = (if start < 0 then max 0 (start + n) else min start n)
      in drop (nat lo) xs)"

text \<open>\<^verbatim>\<open>get_recent_messages(limit)\<close>: \<^verbatim>\<open>-limit\<close> is \<open>0\<close> when \<open>limit\<close> is \<open>0\<close>.\<close>

definition get_recent_messages :: "EventBus \<Rightarrow> int \<Rightarrow> Message list" where
  "get_recent_messages self limit =
     (if message_history self \<noteq> [] then slice_from (message_history self) (- limit) else [])"

text \<open>
  \<^verbatim>\<open>shutdown()\<close>: the executor is shut down; no task of the loop exists to cancel (the
  queued coroutines are not tasks until the loop runs them); \<^verbatim>\<open>loop.close()\<close> closes the
  loop and clears its queue. Nothing else is written: the class has no flag of its own
  that \<^verbatim>\<open>publish\<close> could test.
\<close>

definition shutdown :: "EventBus \<Rightarrow> EventBus" where
  "shutdown self = self\<lparr>executor_shutdown := True, loop_closed := True, loop_ready := []\<rparr>"

text \<open>
  A caller that publishes the messages of a list one after the other, going on after a
  call that raised.
\<close>

fun publish_all :: "EventBus \<Rightarrow> Message list \<Rightarrow> EventBus" where
  "publish_all self [] = self"
| "publish_all self (m # ms) = publish_all (snd (publish self (A_Message m))) ms"

section \<open>Concrete inputs\<close>

text \<open>
  A store of three dictionaries (a payload, a metadata dictionary, an empty dictionary), a
  message with every optional field set, and one with every optional field at its default.
\<close>

definition example_store :: store where
  "example_store =
     [[''a'' \<mapsto> PyInt 0, ''b'' \<mapsto> PyInt 2], [''origin'' \<mapsto> PyStr ''test''], Map.empty]"

definition full_message :: Message where
  "full_message =
     \<lparr>type = TASK_CREATED, type_name = ''TASK_CREATED'', content = PyDict 0,
      sender = PyStr ''agent-a'', recipient = PyStr ''agent-b'',
      timestamp = PyFloat 1700000000, message_id = PyStr ''msg-7'',
      parent_id = PyStr ''msg-6'', context_id = PyStr ''meeting-9'',
      thread_id = PyStr ''thread-3'', priority = PyInt 5, ttl = PyInt 60,
      metadata = PyDict 1\<rparr>"

definition bare_message :: Message where
  "bare_message =
     \<lparr>type = AUDIO_CAPTURED, type_name = ''AUDIO_CAPTURED'', content = PyDict 0,
      sender = PyNone, recipient = PyNone,
      timestamp = PyFloat 1700000000, message_id = PyStr ''msg-8'',
      parent_id = PyNone, context_id = PyNone,
      thread_id = PyNone, priority = PyInt 0, ttl = PyNone,
      metadata = PyDict 2\<rparr>"

text \<open>
  Messages that differ in their priority only, a callback that returns and one that raises
  an \<^verbatim>\<open>Exception\<close>.
\<close>

definition numbered :: "int \<Rightarrow> Message" where
  "numbered i = bare_message\<lparr>priority := PyInt i\<rparr>"

definition quiet_callback :: callback where
  "quiet_callback = (\<lambda>message. Returned)"



section \<open>Facts about the enumeration and the constructor\<close>

lemma MessageType_getitem_name: "MessageType_getitem (MessageType_name t) = Some t"
  by (cases t) (simp_all add: MessageType_getitem_def MessageType_members_def)

lemma MessageType_getitem_SomeD: "MessageType_getitem s = Some t \<Longrightarrow> MessageType_name t = s"
  by (auto simp: MessageType_getitem_def MessageType_members_def split: if_splits)

lemma MessageType_getitem_unrecognized:
  "(\<forall>t. s \<noteq> MessageType_name t) \<Longrightarrow> MessageType_getitem s = None"
  by (cases "MessageType_getitem s") (auto dest: MessageType_getitem_SomeD)

lemma post_init_unrecognized:
  "(\<forall>t. v \<noteq> PyEnum t \<and> v \<noteq> PyStr (MessageType_name t)) \<Longrightarrow> post_init v = Inl ValueError"
  by (cases v) (auto simp: MessageType_getitem_unrecognized)

lemma bogus_is_no_member: "\<forall>t. ''BOGUS'' \<noteq> MessageType_name t"
proof
  fix t show "''BOGUS'' \<noteq> MessageType_name t" by (cases t) simp_all
qed

text \<open>Every message that the constructor returns carries the name of its own type.\<close>

lemma Message_init_type_name:
  "Message_init ty c sn rc ts mid par ctx thr pr lf md = Inr m \<Longrightarrow>
     type_name m = MessageType_name (type m)"
  by (auto simp: Message_init_def split: sum.splits)

section \<open>Claims about Message\<close>

text \<open>
  Claim C7. Constructing a message whose kind is a string that names no member of the
  enumeration fails, and so does \<^verbatim>\<open>from_dict\<close> on a dictionary whose stored kind is neither
  a member nor the name of one; the error is the \<^verbatim>\<open>ValueError\<close> that the code raises for
  an invalid message type (the specification calls it ValidationError). Construction with
  a member, or with the name of a member, succeeds and yields a message of that kind.
\<close>

theorem message_kind_validation:
  "((\<forall>t. s \<noteq> MessageType_name t) \<longrightarrow>
      Message_init (PyStr s) c sn rc ts mid par ctx thr pr lf md = Inl ValueError)
   \<and> ((h ! data) ''type'' = Some v \<and> (\<forall>t. v \<noteq> PyEnum t \<and> v \<noteq> PyStr (MessageType_name t)) \<longrightarrow>
      fst (from_dict now uid data h) = Inl ValueError)
   \<and> (\<exists>m. Message_init (PyEnum k) c sn rc ts mid par ctx thr pr lf md = Inr m \<and> type m = k)
   \<and> (\<exists>m. Message_init (PyStr (MessageType_name k)) c sn rc ts mid par ctx thr pr lf md = Inr m
          \<and> type m = k)"
proof (intro conjI impI)
  assume "\<forall>t. s \<noteq> MessageType_name t"
  then show "Message_init (PyStr s) c sn rc ts mid par ctx thr pr lf md = Inl ValueError"
    by (simp add: Message_init_def MessageType_getitem_unrecognized)
next
  assume a: "(h ! data) ''type'' = Some v \<and> (\<forall>t. v \<noteq> PyEnum t \<and> v \<noteq> PyStr (MessageType_name t))"
  then have p: "post_init v = Inl ValueError"
    by (simp add: post_init_unrecognized)
  show "fst (from_dict now uid data h) = Inl ValueError"
  proof (cases v)
    case (PyStr s)
    with a have "MessageType_getitem s = None"
      by (auto intro: MessageType_getitem_unrecognized)
    with a PyStr show ?thesis
      by (simp add: from_dict_def)
  qed (use a p in \<open>simp_all add: from_dict_def alloc_def Message_init_def Let_def\<close>)
next
  show "\<exists>m. Message_init (PyEnum k) c sn rc ts mid par ctx thr pr lf md = Inr m \<and> type m = k"
    by (simp add: Message_init_def)
next
  show "\<exists>m. Message_init (PyStr (MessageType_name k)) c sn rc ts mid par ctx thr pr lf md = Inr m
          \<and> type m = k"
    by (simp add: Message_init_def MessageType_getitem_name)
qed

theorem message_kind_validation_witness:
  "(\<forall>t. ''BOGUS'' \<noteq> MessageType_name t)
   \<and> Message_init (PyStr ''BOGUS'') (PyDict 0) PyNone PyNone (PyFloat 1) (PyStr ''msg-1'')
        PyNone PyNone PyNone (PyInt 0) PyNone (PyDict 2) = Inl ValueError
   \<and> ([[''type'' \<mapsto> PyStr ''BOGUS'', ''content'' \<mapsto> PyDict 0]] ! 0) ''type''
        = Some (PyStr ''BOGUS'')
   \<and> (\<forall>t. PyStr ''BOGUS'' \<noteq> PyEnum t \<and> PyStr ''BOGUS'' \<noteq> PyStr (MessageType_name t))
   \<and> fst (from_dict 1 ''msg-1'' 0 [[''type'' \<mapsto> PyStr ''BOGUS'', ''content'' \<mapsto> PyDict 0]])
        = Inl ValueError
   \<and> (\<exists>m. Message_init (PyEnum TASK_CREATED) (PyDict 0) PyNone PyNone (PyFloat 1)
             (PyStr ''msg-1'') PyNone PyNone PyNone (PyInt 0) PyNone (PyDict 2) = Inr m
          \<and> type m = TASK_CREATED)
   \<and> (\<exists>m. Message_init (PyStr (MessageType_name TASK_CREATED)) (PyDict 0) PyNone PyNone
             (PyFloat 1) (PyStr ''msg-1'') PyNone PyNone PyNone (PyInt 0) PyNone (PyDict 2)
             = Inr m
          \<and> type m = TASK_CREATED)"
  using bogus_is_no_member
    message_kind_validation [where s = "''BOGUS''" and c = "PyDict 0" and sn = PyNone
      and rc = PyNone and ts = "PyFloat 1" and mid = "PyStr ''msg-1''" and par = PyNone
      and ctx = PyNone and thr = PyNone and pr = "PyInt 0" and lf = PyNone and md = "PyDict 2"
      and h = "[[''type'' \<mapsto> PyStr ''BOGUS'', ''content'' \<mapsto> PyDict 0]]" and data = 0
      and v = "PyStr ''BOGUS''" and now = 1 and uid = "''msg-1''" and k = TASK_CREATED]
  by simp

text \<open>
  Claim C2. For every message \<open>m\<close> (one that a constructor call returned, so that its
  \<^verbatim>\<open>type_name\<close> is the name of its type), \<^verbatim>\<open>from_dict(to_dict(m))\<close> returns a message
  equal to \<open>m\<close> in every field: type, content, sender, recipient, timestamp, message_id,
  parent_id, context_id, thread_id, priority, ttl and metadata. No default of
  \<^verbatim>\<open>from_dict\<close> is used, whatever the clock and the generated identifier are.
\<close>

theorem from_dict_to_dict_roundtrip:
  assumes "type_name m = MessageType_name (type m)"
  shows "fst (from_dict now uid (fst (to_dict m h)) (snd (to_dict m h))) = Inr m"
  using assms
  by (simp add: from_dict_def to_dict_def alloc_def dict_get_def Message_init_def
      MessageType_getitem_name Let_def)

theorem from_dict_to_dict_roundtrip_witness:
  "type_name full_message = MessageType_name (type full_message)
   \<and> fst (from_dict 1700000500 ''fresh-id'' (fst (to_dict full_message example_store))
            (snd (to_dict full_message example_store))) = Inr full_message
   \<and> type_name bare_message = MessageType_name (type bare_message)
   \<and> fst (from_dict 1700000500 ''fresh-id'' (fst (to_dict bare_message example_store))
            (snd (to_dict bare_message example_store))) = Inr bare_message"
  using from_dict_to_dict_roundtrip [of full_message 1700000500 "''fresh-id''" example_store]
    from_dict_to_dict_roundtrip [of bare_message 1700000500 "''fresh-id''" example_store]
  by (simp add: full_message_def bare_message_def)

text \<open>
  Claim C9. \<^verbatim>\<open>from_dict\<close> changes the dictionary it is given: when a call succeeds, the
  dictionary held the key \<^verbatim>\<open>"type"\<close> before and holds every other entry but not that key
  afterwards, and a second call on the same dictionary fails (with the \<^verbatim>\<open>KeyError\<close> of
  \<^verbatim>\<open>pop\<close>) instead of returning a message.
\<close>

theorem from_dict_pops_type:
  assumes "data < length h" and "from_dict now uid data h = (Inr m, h')"
  shows "(h ! data) ''type'' \<noteq> None
       \<and> h' ! data = (h ! data)(''type'' := None)
       \<and> fst (from_dict now' uid' data h') = Inl KeyError"
proof -
  from assms(2) obtain v where v: "(h ! data) ''type'' = Some v"
    by (cases "(h ! data) ''type''") (simp_all add: from_dict_def)
  from assms(2) v have h': "h' = h[data := (h ! data)(''type'' := None)] @ [Map.empty, Map.empty]"
    by (auto simp: from_dict_def alloc_def Let_def split: sum.splits pyval.splits option.splits)
  with assms(1) have d: "h' ! data = (h ! data)(''type'' := None)"
    by (simp add: nth_append)
  then have "fst (from_dict now' uid' data h') = Inl KeyError"
    by (simp add: from_dict_def)
  with v d show ?thesis by simp
qed

theorem from_dict_pops_type_witness:
  "3 < length (snd (to_dict full_message example_store))
   \<and> from_dict 1700000500 ''fresh-id'' 3 (snd (to_dict full_message example_store))
       = (Inr full_message,
          (snd (to_dict full_message example_store))
            [3 := (snd (to_dict full_message example_store) ! 3)(''type'' := None)]
            @ [Map.empty, Map.empty])
   \<and> (snd (to_dict full_message example_store) ! 3) ''type'' \<noteq> None
   \<and> ((snd (to_dict full_message example_store))
            [3 := (snd (to_dict full_message example_store) ! 3)(''type'' := None)]
            @ [Map.empty, Map.empty]) ! 3
       = (snd (to_dict full_message example_store) ! 3)(''type'' := None)
   \<and> fst (from_dict 1700000501 ''other-id'' 3
        ((snd (to_dict full_message example_store))
            [3 := (snd (to_dict full_message example_store) ! 3)(''type'' := None)]
            @ [Map.empty, Map.empty])) = Inl KeyError"
proof -
  have len: "3 < length (snd (to_dict full_message example_store))"
    by (simp add: to_dict_def alloc_def example_store_def)
  have run: "from_dict 1700000500 ''fresh-id'' 3 (snd (to_dict full_message example_store))
       = (Inr full_message,
          (snd (to_dict full_message example_store))
            [3 := (snd (to_dict full_message example_store) ! 3)(''type'' := None)]
            @ [Map.empty, Map.empty])"
    by (simp add: from_dict_def to_dict_def alloc_def dict_get_def Message_init_def
        MessageType_getitem_def MessageType_members_def Let_def example_store_def
        full_message_def)
  show ?thesis
    using len run from_dict_pops_type [OF len run, of 1700000501 "''other-id''"] by simp
qed

text \<open>
  Claim C8, as the code has it. For every message \<open>m\<close> whose content and metadata are
  dictionaries of the store and every keyword dictionary \<open>kwargs\<close> without the key
  \<^verbatim>\<open>self\<close>, \<^verbatim>\<open>m.with_content(**kwargs)\<close> returns a new message whose content is a new
  dictionary holding the entries of \<open>m\<close>'s content overridden by those of \<open>kwargs\<close>, whose
  parent_id is \<open>m\<close>'s message_id, whose type, sender, recipient, context_id, thread_id,
  priority and ttl are those of \<open>m\<close>, and whose metadata is a new dictionary with the
  entries of \<open>m\<close>'s metadata; every dictionary that existed before the call, those of \<open>m\<close>
  among them, is left as it was. With the key \<^verbatim>\<open>self\<close> in \<open>kwargs\<close> the call raises
  \<^verbatim>\<open>TypeError\<close> and leaves the store as it was.
\<close>

theorem with_content_merges:
  "(kwargs ''self'' \<noteq> None \<longrightarrow> with_content now uid m kwargs h = (Inl TypeError, h))
   \<and> (content m = PyDict cr \<and> metadata m = PyDict mr \<and> cr < length h \<and> mr < length h
        \<and> kwargs ''self'' = None \<longrightarrow>
       (\<exists>n h'. with_content now uid m kwargs h = (Inr n, h')
           \<and> content n = PyDict (length h)
           \<and> h' ! length h = (h ! cr) ++ kwargs
           \<and> (\<forall>k. (h' ! length h) k = (case kwargs k of Some v \<Rightarrow> Some v | None \<Rightarrow> (h ! cr) k))
           \<and> parent_id n = message_id m
           \<and> type n = type m
           \<and> sender n = sender m
           \<and> recipient n = recipient m
           \<and> context_id n = context_id m
           \<and> thread_id n = thread_id m
           \<and> priority n = priority m
           \<and> ttl n = ttl m
           \<and> metadata n = PyDict (Suc (length h))
           \<and> h' ! Suc (length h) = h ! mr
           \<and> take (length h) h' = h))"
proof (intro conjI impI)
  assume "kwargs ''self'' \<noteq> None"
  then show "with_content now uid m kwargs h = (Inl TypeError, h)"
    by (simp add: with_content_def)
next
  assume a: "content m = PyDict cr \<and> metadata m = PyDict mr \<and> cr < length h \<and> mr < length h
        \<and> kwargs ''self'' = None"
  let ?h' = "h @ [(h ! cr) ++ kwargs, h ! mr]"
  let ?n = "\<lparr>type = type m, type_name = MessageType_name (type m),
             content = PyDict (length h), sender = sender m, recipient = recipient m,
             timestamp = PyFloat now, message_id = PyStr uid, parent_id = message_id m,
             context_id = context_id m, thread_id = thread_id m, priority = priority m,
             ttl = ttl m, metadata = PyDict (Suc (length h))\<rparr>"
  have run: "with_content now uid m kwargs h = (Inr ?n, ?h')"
    using a by (simp add: with_content_def alloc_def Message_init_def nth_append)
  have new_content: "?h' ! length h = (h ! cr) ++ kwargs"
    by (simp add: nth_append)
  have new_metadata: "?h' ! Suc (length h) = h ! mr"
    by (simp add: nth_append)
  have merged: "\<forall>k. (?h' ! length h) k = (case kwargs k of Some v \<Rightarrow> Some v | None \<Rightarrow> (h ! cr) k)"
    unfolding new_content by (simp add: map_add_def)
  have old: "take (length h) ?h' = h"
    by simp
  show "\<exists>n h'. with_content now uid m kwargs h = (Inr n, h')
           \<and> content n = PyDict (length h)
           \<and> h' ! length h = (h ! cr) ++ kwargs
           \<and> (\<forall>k. (h' ! length h) k = (case kwargs k of Some v \<Rightarrow> Some v | None \<Rightarrow> (h ! cr) k))
           \<and> parent_id n = message_id m
           \<and> type n = type m
           \<and> sender n = sender m
           \<and> recipient n = recipient m
           \<and> context_id n = context_id m
           \<and> thread_id n = thread_id m
           \<and> priority n = priority m
           \<and> ttl n = ttl m
           \<and> metadata n = PyDict (Suc (length h))
           \<and> h' ! Suc (length h) = h ! mr
           \<and> take (length h) h' = h"
    using run new_content new_metadata merged old
    by (intro exI [of _ ?n] exI [of _ ?h']) simp
qed

theorem with_content_merges_witness:
  "[''self'' \<mapsto> PyInt 1] ''self'' \<noteq> None
   \<and> with_content 1700000500 ''fresh-id'' full_message [''self'' \<mapsto> PyInt 1] example_store
       = (Inl TypeError, example_store)
   \<and> content full_message = PyDict 0 \<and> metadata full_message = PyDict 1
   \<and> 0 < length example_store \<and> 1 < length example_store
   \<and> [''a'' \<mapsto> PyInt 1] ''self'' = None
   \<and> (\<exists>n h'. with_content 1700000500 ''fresh-id'' full_message [''a'' \<mapsto> PyInt 1] example_store
               = (Inr n, h')
           \<and> content n = PyDict 3
           \<and> (h' ! 3) ''a'' = Some (PyInt 1)
           \<and> (h' ! 3) ''b'' = Some (PyInt 2)
           \<and> parent_id n = PyStr ''msg-7''
           \<and> type n = TASK_CREATED
           \<and> ttl n = PyInt 60
           \<and> metadata n = PyDict 4
           \<and> h' ! 4 = example_store ! 1
           \<and> take 3 h' = example_store)"
proof -
  have bad: "[''self'' \<mapsto> PyInt 1] ''self'' \<noteq> None"
    by simp
  have raised: "with_content 1700000500 ''fresh-id'' full_message [''self'' \<mapsto> PyInt 1]
      example_store = (Inl TypeError, example_store)"
    using bad with_content_merges
      [of "[''self'' \<mapsto> PyInt 1]" 1700000500 "''fresh-id''" full_message example_store 0 1]
    by blast
  have pre: "content full_message = PyDict 0" "metadata full_message = PyDict 1"
    "0 < length example_store" "1 < length example_store"
    "[''a'' \<mapsto> PyInt 1] ''self'' = None"
    by (simp_all add: full_message_def example_store_def)
  from pre with_content_merges
      [of "[''a'' \<mapsto> PyInt 1]" 1700000500 "''fresh-id''" full_message example_store 0 1]
  obtain n h' where r:
    "with_content 1700000500 ''fresh-id'' full_message [''a'' \<mapsto> PyInt 1] example_store = (Inr n, h')"
    "content n = PyDict (length example_store)"
    "h' ! length example_store = (example_store ! 0) ++ [''a'' \<mapsto> PyInt 1]"
    "parent_id n = message_id full_message"
    "type n = type full_message"
    "ttl n = ttl full_message"
    "metadata n = PyDict (Suc (length example_store))"
    "h' ! Suc (length example_store) = example_store ! 1"
    "take (length example_store) h' = example_store"
    by blast
  have l: "length example_store = 3"
    by (simp add: example_store_def)
  have c: "h' ! 3 = (example_store ! 0) ++ [''a'' \<mapsto> PyInt 1]"
    using r(3) by (simp only: l)
  have a: "(h' ! 3) ''a'' = Some (PyInt 1)" and b: "(h' ! 3) ''b'' = Some (PyInt 2)"
    unfolding c by (simp_all add: example_store_def)
  have f: "parent_id n = PyStr ''msg-7''" "type n = TASK_CREATED" "ttl n = PyInt 60"
    using r(4-6) by (simp_all add: full_message_def)
  have g: "content n = PyDict 3" "metadata n = PyDict 4" "h' ! 4 = example_store ! 1"
    "take 3 h' = example_store"
    using r(2,7,8,9) by (simp_all only: l) simp_all
  show ?thesis
    using bad raised pre r(1) a b f g by blast
qed

text \<open>
  The claim as stated, for every update mapping, fails at a mapping that holds the key
  \<^verbatim>\<open>self\<close>: the call raises \<^verbatim>\<open>TypeError\<close> and returns no message, on a message whose
  content and metadata are dictionaries of the store.
\<close>

theorem with_content_self_key_counterexample:
  "content full_message = PyDict 0 \<and> metadata full_message = PyDict 1
   \<and> length example_store = 3
   \<and> fst (with_content 1700000500 ''fresh-id'' full_message [''self'' \<mapsto> PyInt 1]
        example_store) = Inl TypeError"
  by (simp add: with_content_def full_message_def example_store_def)

text \<open>
  Claim C10. For every message \<open>m\<close> (with a ttl or without one) and every recognized reply
  kind, the reply of \<^verbatim>\<open>m.create_reply(kind, payload)\<close> has ttl \<^verbatim>\<open>None\<close>, while its priority,
  context_id and thread_id are those of \<open>m\<close> and its metadata is a new dictionary with the
  entries of \<open>m\<close>'s metadata.
\<close>

theorem create_reply_drops_ttl:
  assumes "metadata m = PyDict mr" and "post_init kind = Inr t"
  shows "\<exists>r. create_reply now uid m kind payload h = (Inr r, h @ [h ! mr])
           \<and> ttl r = PyNone
           \<and> priority r = priority m
           \<and> context_id r = context_id m
           \<and> thread_id r = thread_id m
           \<and> metadata r = PyDict (length h)"
  using assms by (simp add: create_reply_def alloc_def Message_init_def)

theorem create_reply_drops_ttl_witness:
  "metadata full_message = PyDict 1 \<and> post_init (PyEnum TASK_UPDATED) = Inr TASK_UPDATED
   \<and> ttl full_message = PyInt 60
   \<and> (\<exists>r. create_reply 1700000500 ''fresh-id'' full_message (PyEnum TASK_UPDATED) (PyDict 2)
             example_store = (Inr r, example_store @ [example_store ! 1])
           \<and> ttl r = PyNone
           \<and> priority r = PyInt 5
           \<and> context_id r = PyStr ''meeting-9''
           \<and> thread_id r = PyStr ''thread-3''
           \<and> metadata r = PyDict 3)"
proof -
  have pre: "metadata full_message = PyDict 1" "post_init (PyEnum TASK_UPDATED) = Inr TASK_UPDATED"
    by (simp_all add: full_message_def)
  from create_reply_drops_ttl [OF pre, of 1700000500 "''fresh-id''" "PyDict 2" example_store]
  obtain r where r:
    "create_reply 1700000500 ''fresh-id'' full_message (PyEnum TASK_UPDATED) (PyDict 2)
       example_store = (Inr r, example_store @ [example_store ! 1])"
    "ttl r = PyNone"
    "priority r = priority full_message"
    "context_id r = context_id full_message"
    "thread_id r = thread_id full_message"
    "metadata r = PyDict (length example_store)"
    by blast
  have l: "length example_store = 3"
    by (simp add: example_store_def)
  have f: "priority r = PyInt 5" "context_id r = PyStr ''meeting-9''"
    "thread_id r = PyStr ''thread-3''"
    using r(3-5) by (simp_all add: full_message_def)
  have g: "metadata r = PyDict 3"
    using r(6) by (simp only: l)
  have t: "ttl full_message = PyInt 60"
    by (simp add: full_message_def)
  show ?thesis
    using pre t r(1,2) f g by blast
qed

section \<open>Facts about publish\<close>

text \<open>Submitting touches the queue of the loop only.\<close>

lemma submit_all_frame:
  "message_history (snd (submit_all b subs m)) = message_history b
   \<and> max_history_size (snd (submit_all b subs m)) = max_history_size b
   \<and> subscribers (snd (submit_all b subs m)) = subscribers b
   \<and> loop_closed (snd (submit_all b subs m)) = loop_closed b"
  by (induction b subs m rule: submit_all.induct) auto


text \<open>On a closed loop the first submission raises.\<close>

lemma submit_all_closed:
  "loop_closed b \<Longrightarrow> submit_all b subs m = ((if subs = [] then None else Some RuntimeError), b)"
  by (cases subs) auto

lemma publish_history:
  assumes "0 < max_history_size b \<or> message_history b \<noteq> []"
  shows "message_history (snd (publish b (A_Message m))) =
           (if int (length (message_history b)) \<ge> max_history_size b
            then tl (message_history b) else message_history b) @ [m]"
    and "max_history_size (snd (publish b (A_Message m))) = max_history_size b"
  using assms
  by (auto simp: publish_def Let_def submit_all_frame split: option.splits)

text \<open>
  With a capacity that is not positive, \<^verbatim>\<open>pop(0)\<close> meets an empty list: the call raises and
  records nothing.
\<close>

lemma publish_empty_pop:
  "max_history_size b \<le> 0 \<Longrightarrow> message_history b = [] \<Longrightarrow>
     publish b (A_Message m) = (Some IndexError, b)"
  by (simp add: publish_def)



lemma publish_all_history:
  assumes "0 < max_history_size b" and "int (length (message_history b)) \<le> max_history_size b"
  shows "message_history (publish_all b ms) =
           drop (length (message_history b @ ms) - nat (max_history_size b))
             (message_history b @ ms)
         \<and> max_history_size (publish_all b ms) = max_history_size b"
  using assms
proof (induction ms arbitrary: b)
  case Nil
  then show ?case by simp
next
  case (Cons m ms)
  let ?b1 = "snd (publish b (A_Message m))"
  let ?h = "message_history b"
  let ?N = "max_history_size b"
  have pos: "0 < ?N \<or> ?h \<noteq> []" using Cons.prems by simp
  have h1: "message_history ?b1 = (if int (length ?h) \<ge> ?N then tl ?h else ?h) @ [m]"
    and n1: "max_history_size ?b1 = ?N"
    using publish_history [OF pos] by simp_all
  have len1: "int (length (message_history ?b1)) \<le> ?N"
    using Cons.prems by (auto simp: h1)
  have ih: "message_history (publish_all ?b1 ms) =
           drop (length (message_history ?b1 @ ms) - nat ?N) (message_history ?b1 @ ms)
         \<and> max_history_size (publish_all ?b1 ms) = ?N"
    using Cons.IH [of ?b1] Cons.prems(1) len1 n1 by simp
  show ?case
  proof (cases "int (length ?h) \<ge> ?N")
    case False
    with ih h1 show ?thesis by simp
  next
    case True
    with Cons.prems have eq: "length ?h = nat ?N" and ne: "?h \<noteq> []" by auto
    define xs where "xs = ?h @ m # ms"
    have t: "tl ?h @ [m] @ ms = drop 1 xs"
      using ne by (cases ?h) (simp_all add: xs_def)
    have L: "length xs = Suc (nat ?N + length ms)"
      using eq by (simp add: xs_def)
    have "message_history (publish_all ?b1 ms) =
            drop (length (tl ?h @ [m] @ ms) - nat ?N) (tl ?h @ [m] @ ms)"
      using ih h1 True by simp
    also have "\<dots> = drop (length (drop 1 xs) - nat ?N) (drop 1 xs)"
      by (simp only: t)
    also have "\<dots> = drop (length xs - nat ?N) xs"
      using L by (simp del: drop_Suc_Cons add: add.commute)
    also have "\<dots> = drop (length (?h @ m # ms) - nat ?N) (?h @ m # ms)"
      by (simp only: xs_def)
    finally show ?thesis using ih by simp
  qed
qed

text \<open>A positive limit selects the last \<open>limit\<close> messages, or all of them when there are fewer.\<close>

lemma get_recent_messages_positive:
  "0 < limit \<Longrightarrow>
     get_recent_messages b limit =
       drop (length (message_history b) - nat limit) (message_history b)"
  by (auto simp: get_recent_messages_def slice_from_def Let_def max_def nat_diff_distrib'
      intro: arg_cong [where f = "\<lambda>n. drop n _"])

section \<open>Claims about EventBus\<close>

text \<open>
  Claim C5. For a history buffer of capacity \<open>N\<close> (a positive \<^verbatim>\<open>max_history_size\<close>) that
  holds at most \<open>N\<close> messages, as the buffer of a new bus does: after any sequence of
  publishes the history holds at most \<open>N\<close> messages; each publish removes the oldest entry
  first when the buffer is full and then appends the message at the tail; the history after
  a sequence is the last \<open>N\<close> messages of everything recorded, in publish order; so \<open>N + 5\<close>
  publishes into an empty buffer leave the list of published messages without its first
  five.
\<close>

theorem history_bounded_fifo:
  assumes "0 < max_history_size b"
    and "int (length (message_history b)) \<le> max_history_size b"
  shows "int (length (message_history (publish_all b ms))) \<le> max_history_size b
       \<and> message_history (snd (publish b (A_Message m))) =
           (if int (length (message_history b)) \<ge> max_history_size b
            then tl (message_history b) else message_history b) @ [m]
       \<and> message_history (publish_all b ms) =
           drop (length (message_history b @ ms) - nat (max_history_size b))
             (message_history b @ ms)
       \<and> (message_history b = [] \<and> length ms = nat (max_history_size b) + 5 \<longrightarrow>
            message_history (publish_all b ms) = drop 5 ms)"
proof -
  have all: "message_history (publish_all b ms) =
           drop (length (message_history b @ ms) - nat (max_history_size b))
             (message_history b @ ms)"
    using publish_all_history [OF assms] by simp
  have bound: "int (length (message_history (publish_all b ms))) \<le> max_history_size b"
    unfolding all using assms by auto
  have step: "message_history (snd (publish b (A_Message m))) =
           (if int (length (message_history b)) \<ge> max_history_size b
            then tl (message_history b) else message_history b) @ [m]"
    using publish_history(1) [of b m] assms(1) by simp
  have five: "message_history b = [] \<and> length ms = nat (max_history_size b) + 5 \<longrightarrow>
            message_history (publish_all b ms) = drop 5 ms"
    unfolding all by simp
  from bound step all five show ?thesis by blast
qed

theorem history_bounded_fifo_witness:
  "0 < max_history_size (EventBus_init [''max_history_size'' \<mapsto> 2])
   \<and> int (length (message_history (EventBus_init [''max_history_size'' \<mapsto> 2])))
       \<le> max_history_size (EventBus_init [''max_history_size'' \<mapsto> 2])
   \<and> message_history (EventBus_init [''max_history_size'' \<mapsto> 2]) = []
   \<and> length [numbered 1, numbered 2, numbered 3, numbered 4, numbered 5, numbered 6, numbered 7]
       = nat (max_history_size (EventBus_init [''max_history_size'' \<mapsto> 2])) + 5
   \<and> int (length (message_history (publish_all (EventBus_init [''max_history_size'' \<mapsto> 2])
        [numbered 1, numbered 2, numbered 3, numbered 4, numbered 5, numbered 6, numbered 7])))
       \<le> 2
   \<and> message_history (snd (publish (EventBus_init [''max_history_size'' \<mapsto> 2])
        (A_Message (numbered 1)))) = [numbered 1]
   \<and> message_history (publish_all (EventBus_init [''max_history_size'' \<mapsto> 2])
        [numbered 1, numbered 2, numbered 3, numbered 4, numbered 5, numbered 6, numbered 7])
       = [numbered 6, numbered 7]"
proof -
  let ?b = "EventBus_init [''max_history_size'' \<mapsto> 2]"
  let ?ms = "[numbered 1, numbered 2, numbered 3, numbered 4, numbered 5, numbered 6, numbered 7]"
  have pre: "0 < max_history_size ?b" "int (length (message_history ?b)) \<le> max_history_size ?b"
    by (simp_all add: EventBus_init_def)
  have f: "max_history_size ?b = 2" "message_history ?b = []"
    by (simp_all add: EventBus_init_def)
  show ?thesis
    using pre history_bounded_fifo [OF pre, of ?ms "numbered 1"]
    by (simp add: f)
qed

text \<open>
  Claim C6, at the limit \<open>0\<close>. \<^verbatim>\<open>get_recent_messages(0)\<close> on a history of two messages
  returns both of them: \<^verbatim>\<open>-0\<close> is \<open>0\<close>, and \<^verbatim>\<open>message_history[0:]\<close> is the whole list. The
  claim, like the docstring (\<^verbatim>\<open>limit\<close> is the maximum number of messages to return),
  allows none. For a positive limit the function returns the last \<open>limit\<close> messages
  (\<open>get_recent_messages_positive\<close>).
\<close>

theorem get_recent_messages_zero_limit:
  "get_recent_messages (publish_all (EventBus_init Map.empty) [full_message, bare_message]) 0
     = [full_message, bare_message]
   \<and> length (get_recent_messages
        (publish_all (EventBus_init Map.empty) [full_message, bare_message]) 0) = 2"
proof -
  let ?b = "EventBus_init Map.empty"
  have pre: "0 < max_history_size ?b" "int (length (message_history ?b)) \<le> max_history_size ?b"
    by (simp_all add: EventBus_init_def)
  have f: "max_history_size ?b = 1000" "message_history ?b = []"
    by (simp_all add: EventBus_init_def)
  have "message_history (publish_all ?b [full_message, bare_message])
          = [full_message, bare_message]"
    using publish_all_history [OF pre, of "[full_message, bare_message]"] by (simp add: f)
  then show ?thesis
    by (simp add: get_recent_messages_def slice_from_def)
qed

text \<open>
  Claim C3, at a subscription made the way \<^verbatim>\<open>subscribe\<close> declares it and the agents make
  it, with the name of the kind as a string. A callback is subscribed to
  \<^verbatim>\<open>"TASK_CREATED"\<close> and a message of type \<^verbatim>\<open>MessageType.TASK_CREATED\<close> is published on an
  open bus: \<^verbatim>\<open>publish\<close> looks up the enum member, finds no entry, and returns without
  submitting any invocation. (For the subscribers stored under the member itself,
  \<open>publish_open_queue\<close> gives one submission each, in the order of the list.)
\<close>

theorem publish_misses_string_subscription:
  "type full_message = TASK_CREATED
   \<and> subscribers (snd (subscribe ''sub-1'' (EventBus_init Map.empty)
        (KStr ''TASK_CREATED'') quiet_callback)) (KStr ''TASK_CREATED'')
       = Some [(''sub-1'', quiet_callback)]
   \<and> publish (snd (subscribe ''sub-1'' (EventBus_init Map.empty)
        (KStr ''TASK_CREATED'') quiet_callback)) (A_Message full_message)
       = (None, (snd (subscribe ''sub-1'' (EventBus_init Map.empty)
           (KStr ''TASK_CREATED'') quiet_callback))\<lparr>message_history := [full_message]\<rparr>)
   \<and> loop_ready (snd (publish (snd (subscribe ''sub-1'' (EventBus_init Map.empty)
        (KStr ''TASK_CREATED'') quiet_callback)) (A_Message full_message))) = []"
  by (simp add: subscribe_def EventBus_init_def publish_def full_message_def Let_def)

text \<open>
  Claim C1, as the code has it. The class keeps no record of having been shut down, and
  \<^verbatim>\<open>publish\<close> tests none; \<^verbatim>\<open>publish(m)\<close> after \<^verbatim>\<open>shutdown()\<close> does the following, for every
  bus and every message \<open>m\<close>. When the history is empty and \<^verbatim>\<open>max_history_size\<close> is not
  positive, it raises \<^verbatim>\<open>IndexError\<close> and the bus stays as \<^verbatim>\<open>shutdown\<close> left it. Otherwise
  it appends \<open>m\<close> to the history (removing the oldest entry of a full buffer first) and
  changes nothing else, so nothing is queued; it returns normally when no subscriber is
  stored under the type of \<open>m\<close>, and raises the \<^verbatim>\<open>RuntimeError\<close> of the closed event loop
  when one is. No other error is raised.
\<close>

theorem publish_after_shutdown:
  "publish (shutdown b) (A_Message m) =
     (if max_history_size b \<le> int (length (message_history b)) \<and> message_history b = []
      then (Some IndexError, shutdown b)
      else ((case subscribers b (KEnum (type m)) of
               None \<Rightarrow> None
             | Some subs \<Rightarrow> if subs = [] then None else Some RuntimeError),
            (shutdown b)\<lparr>message_history :=
               (if max_history_size b \<le> int (length (message_history b))
                then tl (message_history b) else message_history b) @ [m]\<rparr>))
   \<and> loop_ready (snd (publish (shutdown b) (A_Message m))) = []"
proof -
  have closed: "\<And>c subs. loop_closed c \<Longrightarrow>
      submit_all c subs m = ((if subs = [] then None else Some RuntimeError), c)"
    by (rule submit_all_closed)
  have run: "publish (shutdown b) (A_Message m) =
     (if max_history_size b \<le> int (length (message_history b)) \<and> message_history b = []
      then (Some IndexError, shutdown b)
      else ((case subscribers b (KEnum (type m)) of
               None \<Rightarrow> None
             | Some subs \<Rightarrow> if subs = [] then None else Some RuntimeError),
            (shutdown b)\<lparr>message_history :=
               (if max_history_size b \<le> int (length (message_history b))
                then tl (message_history b) else message_history b) @ [m]\<rparr>))"
    by (auto simp: publish_def shutdown_def Let_def closed split: option.splits)
  have "loop_ready (snd (publish (shutdown b) (A_Message m))) = []"
    unfolding run by (simp add: shutdown_def)
  with run show ?thesis by blast
qed

theorem publish_after_shutdown_witness:
  "publish (shutdown (snd (subscribe ''sub-1'' (EventBus_init Map.empty)
        (KEnum TASK_CREATED) quiet_callback))) (A_Message full_message)
     = (Some RuntimeError,
        (shutdown (snd (subscribe ''sub-1'' (EventBus_init Map.empty)
           (KEnum TASK_CREATED) quiet_callback)))\<lparr>message_history := [full_message]\<rparr>)
   \<and> loop_ready (snd (publish (shutdown (snd (subscribe ''sub-1''
        (EventBus_init Map.empty) (KEnum TASK_CREATED) quiet_callback)))
        (A_Message full_message))) = []
   \<and> publish (shutdown (EventBus_init [''max_history_size'' \<mapsto> 0])) (A_Message full_message)
     = (Some IndexError, shutdown (EventBus_init [''max_history_size'' \<mapsto> 0]))"
proof -
  let ?b = "snd (subscribe ''sub-1'' (EventBus_init Map.empty) (KEnum TASK_CREATED) quiet_callback)"
  let ?z = "EventBus_init [''max_history_size'' \<mapsto> 0]"
  have state: "max_history_size ?b = 1000" "message_history ?b = []"
    "subscribers ?b (KEnum (type full_message)) = Some [(''sub-1'', quiet_callback)]"
    by (simp_all add: subscribe_def EventBus_init_def full_message_def)
  have zero: "max_history_size ?z = 0" "message_history ?z = []"
    by (simp_all add: EventBus_init_def)
  show ?thesis
    using publish_after_shutdown [of ?b full_message] publish_after_shutdown [of ?z full_message]
    by (simp add: state zero shutdown_def)
qed

text \<open>
  The claim as stated fails on a new bus that is shut down: \<^verbatim>\<open>publish\<close> returns without
  raising and the message is in the history. With a subscriber stored under the type of the
  message the call raises, a \<^verbatim>\<open>RuntimeError\<close>, and the message is in the history all the
  same.
\<close>

theorem publish_after_shutdown_counterexample:
  "fst (publish (shutdown (EventBus_init Map.empty)) (A_Message full_message)) = None
   \<and> message_history (snd (publish (shutdown (EventBus_init Map.empty))
        (A_Message full_message))) = [full_message]
   \<and> message_history (snd (publish (shutdown (snd (subscribe ''sub-1''
        (EventBus_init Map.empty) (KEnum TASK_CREATED) quiet_callback)))
        (A_Message full_message))) = [full_message]"
  by (simp add: publish_def shutdown_def subscribe_def EventBus_init_def full_message_def
      Let_def)




end
